theory Spec2Isabelle
  imports Main "HOL-Library.Finite_Map"
begin

section \<open>Data model\<close>

text \<open>
  Modelled from the spec: the status constants of package \<^verbatim>\<open>core\<close>
  (\<^verbatim>\<open>core.StatusPending\<close>, \<^verbatim>\<open>core.StatusRunning\<close>, ...), whose declarations are
  not among the sources. The spec lists the ten values a status takes.
\<close>

datatype status =
    StatusSkipped | StatusBlocked | StatusDeclined | StatusWaiting
  | StatusPending | StatusRunning | StatusPassing | StatusFailing
  | StatusKilled | StatusError

text \<open>
  Go errors. \<^verbatim>\<open>db.ErrOptimisticLock\<close> is a sentinel value; \<open>Err msg\<close> is an error
  made from a message alone (\<^verbatim>\<open>fmt.Errorf("...")\<close> without arguments, or whatever
  a collaborator returns); \<open>Errorf prefix e\<close> is \<^verbatim>\<open>fmt.Errorf(prefix + "%v", e)\<close>;
  \<open>MultiError es\<close> is the value \<^verbatim>\<open>multierror.Append\<close> builds.
\<close>

datatype error =
    ErrOptimisticLock
  | Err string
  | Errorf string error
  | MultiError "error list"

text \<open>
  \<^verbatim>\<open>core.Step\<close>, \<^verbatim>\<open>core.Build\<close> and \<^verbatim>\<open>core.Stage\<close>, with the fields the code
  under verification reads or writes. Identifiers and Unix times are \<^verbatim>\<open>int64\<close>;
  they are only compared and copied, never added, so they are integers here.
  A stage points to its build (\<^verbatim>\<open>Stage.Build\<close>, a pointer that may be nil) and
  a build lists its stages (\<^verbatim>\<open>Build.Stages\<close>): the build a stage carries is
  kept as \<open>build_fields\<close>, the build without its stage list, which nothing reads
  through a stage.
\<close>

record step =
  step_ID :: int
  step_StageID :: int
  step_Name :: string
  step_Status :: status
  step_Started :: int
  step_Stopped :: int
  step_ExitCode :: int

record build_fields =
  build_ID :: int
  build_RepoID :: int
  build_Status :: status
  build_Source :: string
  build_Started :: int
  build_Finished :: int

record stage =
  stage_ID :: int
  stage_BuildID :: int
  stage_RepoID :: int
  stage_Name :: string
  stage_Status :: status
  stage_Machine :: string
  stage_OS :: string
  stage_Arch :: string
  stage_Variant :: string
  stage_Kernel :: string
  stage_Limit :: int
  stage_Labels :: "(string, string) fmap"
  stage_Started :: int
  stage_Stopped :: int
  stage_Updated :: int
  stage_Steps :: "step list"
  stage_Build :: "build_fields option"

record build = build_fields +
  build_Stages :: "stage list"

section \<open>The queue (scheduler/queue/queue.go)\<close>

text \<open>
  A waiting worker. Two workers are different map keys in \<^verbatim>\<open>q.workers\<close> even when
  their platforms agree, since each owns the channel \<^verbatim>\<open>Request\<close> made for it;
  \<open>w_channel\<close> is that channel's identity.
\<close>

record worker =
  w_os :: string
  w_arch :: string
  w_kernel :: string
  w_variant :: string
  w_labels :: "(string, string) fmap"
  w_channel :: nat

text \<open>\<^verbatim>\<open>len(m)\<close> of a Go map: the number of its keys.\<close>

definition len_map :: "(string, string) fmap \<Rightarrow> nat" where
  "len_map m = fcard (fmdom m)"

text \<open>
  \<^verbatim>\<open>checkLabels\<close>: the lengths must agree, and every entry of \<open>a\<close> must be found
  in \<open>b\<close> with the same value. The order in which \<^verbatim>\<open>range a\<close> visits the entries
  does not matter, since the loop only looks for one failing entry.
\<close>

definition checkLabels :: "(string, string) fmap \<Rightarrow> (string, string) fmap \<Rightarrow> bool" where
  "checkLabels a b =
     (if len_map a \<noteq> len_map b then False
      else fmpred (\<lambda>k v. case fmlookup b k of None \<Rightarrow> False | Some w \<Rightarrow> v = w) a)"

text \<open>
  \<^verbatim>\<open>withinLimits\<close>: the loop over the siblings, with the running \<^verbatim>\<open>count\<close> as
  an accumulator. \<^verbatim>\<open>count\<close> is a Go \<^verbatim>\<open>int\<close>; it is bounded by the length of the
  list, so it never wraps.
\<close>

fun withinLimits_count :: "stage \<Rightarrow> stage list \<Rightarrow> int \<Rightarrow> int" where
  "withinLimits_count stage [] count = count"
| "withinLimits_count stage (sibling # siblings) count =
     (if stage_RepoID sibling \<noteq> stage_RepoID stage then withinLimits_count stage siblings count
      else if stage_ID sibling = stage_ID stage then withinLimits_count stage siblings count
      else if stage_Name sibling \<noteq> stage_Name stage then withinLimits_count stage siblings count
      else if stage_ID sibling < stage_ID stage then withinLimits_count stage siblings (count + 1)
      else withinLimits_count stage siblings count)"

definition withinLimits :: "stage \<Rightarrow> stage list \<Rightarrow> bool" where
  "withinLimits stage siblings =
     (if stage_Limit stage = 0 then True
      else withinLimits_count stage siblings 0 < stage_Limit stage)"

text \<open>
  \<^verbatim>\<open>withinBranchLimits\<close>. Reading \<^verbatim>\<open>stage.Build.Status\<close> or
  \<^verbatim>\<open>sibling.Build.Source\<close> through a nil \<^verbatim>\<open>Build\<close> pointer panics: the result
  \<open>None\<close> is that panic. In \<^verbatim>\<open>sibling.Build.Source == "master" &&
  stage.Build.Source == "master"\<close> the sibling's build is read first; the stage's
  own build was already read on entry, so it is passed to the loop as \<open>b\<close>.
\<close>

fun withinBranchLimits_loop :: "stage \<Rightarrow> build_fields \<Rightarrow> stage list \<Rightarrow> bool option" where
  "withinBranchLimits_loop stage b [] = Some True"
| "withinBranchLimits_loop stage b (sibling # siblings) =
     (if stage_BuildID sibling = stage_BuildID stage \<or> stage_RepoID sibling \<noteq> stage_RepoID stage
      then withinBranchLimits_loop stage b siblings
      else (case stage_Build sibling of
              None \<Rightarrow> None
            | Some sb \<Rightarrow>
                if build_Source sb = ''master'' \<and> build_Source b = ''master''
                then (if stage_BuildID stage < stage_BuildID sibling then Some True else Some False)
                else withinBranchLimits_loop stage b siblings))"

definition withinBranchLimits :: "stage \<Rightarrow> stage list \<Rightarrow> bool option" where
  "withinBranchLimits stage siblings =
     (case stage_Build stage of
        None \<Rightarrow> None
      | Some b \<Rightarrow>
          if build_Status b = StatusRunning then Some True
          else withinBranchLimits_loop stage b siblings)"

text \<open>
  The platform checks of \<^verbatim>\<open>signal\<close>'s inner loop, lines 145 to 165: \<open>True\<close> when
  no \<^verbatim>\<open>continue\<close> is taken for worker \<open>w\<close> and the stage \<open>item\<close>.
\<close>

definition worker_accepts :: "worker \<Rightarrow> stage \<Rightarrow> bool" where
  "worker_accepts w item =
     (if w_os w \<noteq> stage_OS item then False
      else if w_arch w \<noteq> stage_Arch item then False
      else if stage_Variant item \<noteq> '''' \<and> stage_Variant item \<noteq> w_variant w then False
      else if stage_Kernel item \<noteq> '''' \<and> stage_Kernel item \<noteq> w_kernel w then False
      else if len_map (stage_Labels item) > 0 \<or> len_map (w_labels w) > 0
      then (if \<not> checkLabels (stage_Labels item) (w_labels w) then False else True)
      else True)"

text \<open>
  The inner loop \<^verbatim>\<open>for w := range q.workers\<close>: the first worker, in the order
  the range visits them, that passes the platform checks; the send on its
  channel ends the loop (\<^verbatim>\<open>break loop\<close>).
\<close>

fun select_worker :: "stage \<Rightarrow> worker list \<Rightarrow> worker option" where
  "select_worker item [] = None"
| "select_worker item (w # ws) =
     (if worker_accepts w item then Some w else select_worker item ws)"

text \<open>
  How a dispatch pass ends: it returns (with \<^verbatim>\<open>nil\<close> or an error), it panics
  on a nil \<^verbatim>\<open>Build\<close> pointer, or it blocks for ever in the send
  \<^verbatim>\<open>w.channel <- item\<close>, which has no \<^verbatim>\<open>default\<close> case and whose channel is
  unbuffered, when the chosen worker no longer receives.
\<close>

datatype ending = Returned "error option" | NilPanic | Blocked

record pass =
  pass_end :: ending
  delivered :: "(worker \<times> stage) list"
  waiting :: "worker list"

text \<open>
  The outer loop of \<^verbatim>\<open>signal\<close> over the fetched \<open>items\<close>; \<open>rest\<close> is the part of
  the list still to visit, \<open>ws\<close> the map \<^verbatim>\<open>q.workers\<close>, \<open>acc\<close> the stages handed
  over so far. Go does not fix the order in which a \<^verbatim>\<open>range\<close> visits a map:
  \<open>order item ws\<close> is the order taken for this stage. \<open>receiving w\<close> tells
  whether the goroutine of worker \<open>w\<close> is still parked on its channel.
\<close>

fun dispatch ::
  "(worker \<Rightarrow> bool) \<Rightarrow> (stage \<Rightarrow> worker list \<Rightarrow> worker list) \<Rightarrow> stage list \<Rightarrow>
   stage list \<Rightarrow> worker list \<Rightarrow> (worker \<times> stage) list \<Rightarrow> pass" where
  "dispatch receiving order items [] ws acc =
     \<lparr>pass_end = Returned None, delivered = acc, waiting = ws\<rparr>"
| "dispatch receiving order items (item # rest) ws acc =
     (case withinBranchLimits item items of
        None \<Rightarrow> \<lparr>pass_end = NilPanic, delivered = acc, waiting = ws\<rparr>
      | Some within \<Rightarrow>
          if \<not> within then dispatch receiving order items rest ws acc
          else if stage_Status item = StatusRunning then dispatch receiving order items rest ws acc
          else if stage_Machine item \<noteq> '''' then dispatch receiving order items rest ws acc
          else if \<not> withinLimits item items then dispatch receiving order items rest ws acc
          else (case select_worker item (order item ws) of
                  None \<Rightarrow> dispatch receiving order items rest ws acc
                | Some w \<Rightarrow>
                    if receiving w
                    then dispatch receiving order items rest (removeAll w ws) (acc @ [(w, item)])
                    else \<lparr>pass_end = Blocked, delivered = acc, waiting = ws\<rparr>))"

record queue =
  q_paused :: bool
  q_workers :: "worker list"

text \<open>
  \<^verbatim>\<open>signal\<close>, one dispatch pass. \<open>listIncomplete\<close> is what
  \<^verbatim>\<open>q.store.ListIncomplete\<close> answers if it is asked.
\<close>

definition signal ::
  "(worker \<Rightarrow> bool) \<Rightarrow> (stage \<Rightarrow> worker list \<Rightarrow> worker list) \<Rightarrow> (error + stage list) \<Rightarrow>
   queue \<Rightarrow> pass" where
  "signal receiving order listIncomplete q =
     (let count = length (q_workers q); pause = q_paused q in
      if pause then \<lparr>pass_end = Returned None, delivered = [], waiting = q_workers q\<rparr>
      else if count = 0 then \<lparr>pass_end = Returned None, delivered = [], waiting = q_workers q\<rparr>
      else (case listIncomplete of
              Inl err \<Rightarrow> \<lparr>pass_end = Returned (Some err), delivered = [], waiting = q_workers q\<rparr>
            | Inr items \<Rightarrow> dispatch receiving order items items (q_workers q) []))"

section \<open>The build manager (unnamed/part_000, package manager)\<close>

text \<open>
  Modelled from the spec: \<^verbatim>\<open>core.Stage.IsDone\<close> and \<^verbatim>\<open>core.Step.IsDone\<close>, whose
  bodies are not among the sources. The spec names the terminal statuses:
  passing, failing, killed, skipped and error.
\<close>

definition status_IsDone :: "status \<Rightarrow> bool" where
  "status_IsDone s =
     (s = StatusPassing \<or> s = StatusFailing \<or> s = StatusKilled \<or> s = StatusSkipped \<or>
      s = StatusError)"

definition stage_IsDone :: "stage \<Rightarrow> bool" where
  "stage_IsDone s = status_IsDone (stage_Status s)"

definition step_IsDone :: "step \<Rightarrow> bool" where
  "step_IsDone s = status_IsDone (step_Status s)"

record user =
  user_ID :: int
  user_Login :: string

record repository =
  repo_ID :: int
  repo_Slug :: string

text \<open>\<^verbatim>\<open>core.StatusInput\<close> and \<^verbatim>\<open>core.WebhookData\<close>, as \<^verbatim>\<open>Cancel\<close> fills them.\<close>

record status_input =
  input_Repo :: repository
  input_Build :: build

datatype webhook_event = WebhookEventBuild

datatype webhook_action = WebhookActionUpdated

record webhook_data =
  hook_Event :: webhook_event
  hook_Action :: webhook_action
  hook_Repo :: repository
  hook_Build :: build

text \<open>
  The manager owns no state: everything it does is a call to a collaborator
  behind an interface, or a read of the clock. A \<open>call\<close> records one such call
  with its arguments and what came back. A Go function returning
  \<^verbatim>\<open>(*core.Stage, error)\<close> returns a pair of a pointer, which may be nil, and an
  error, which may be nil; the pair is kept as it is.
\<close>

datatype call =
    StagesFind int "stage option" "error option"
  | StagesUpdate stage "error option"
  | StagesListSteps int "stage list" "error option"
  | StepsUpdate step "error option"
  | BuildsUpdate build "error option"
  | SchedulerCancel int "error option"
  | SchedulerCancelled int bool "error option"
  | StatusSend user status_input "error option"
  | WebhookSend webhook_data "error option"
  | LogzDelete int "error option"
  | UpdaterDo step "error option"
  | TimeNow int

text \<open>
  The collaborators of a \<^verbatim>\<open>Manager\<close>. What a collaborator answers may depend on
  everything that happened before, so each takes the history of calls made so
  far; \<open>time_Now\<close> is \<^verbatim>\<open>time.Now().Unix()\<close>, and two reads need not agree.
  \<open>updater_do\<close> is \<^verbatim>\<open>updater.do\<close>, a method of the same package whose body is not
  among the sources. A collaborator is taken not to write, through the pointer
  it is handed, to any field kept in the records above.
\<close>

record manager =
  Stages_Find :: "call list \<Rightarrow> int \<Rightarrow> stage option \<times> error option"
  Stages_Update :: "call list \<Rightarrow> stage \<Rightarrow> error option"
  Stages_ListSteps :: "call list \<Rightarrow> int \<Rightarrow> stage list \<times> error option"
  Steps_Update :: "call list \<Rightarrow> step \<Rightarrow> error option"
  Builds_Update :: "call list \<Rightarrow> build \<Rightarrow> error option"
  Scheduler_Cancel :: "call list \<Rightarrow> int \<Rightarrow> error option"
  Scheduler_Cancelled :: "call list \<Rightarrow> int \<Rightarrow> bool \<times> error option"
  Status_Send :: "call list \<Rightarrow> user \<Rightarrow> status_input \<Rightarrow> error option"
  Webhook_Send :: "call list \<Rightarrow> webhook_data \<Rightarrow> error option"
  Logz_Delete :: "call list \<Rightarrow> int \<Rightarrow> error option"
  updater_do :: "call list \<Rightarrow> step \<Rightarrow> error option"
  time_Now :: "call list \<Rightarrow> int"

text \<open>
  A log line: its level, its message and the error attached with
  \<^verbatim>\<open>WithError\<close>, if any. The state threaded through the manager's functions is
  the history of calls and the lines logged.
\<close>

datatype level = Debug | Warn

record mstate =
  calls :: "call list"
  logs :: "(level \<times> string \<times> error option) list"

definition log :: "level \<Rightarrow> string \<Rightarrow> error option \<Rightarrow> mstate \<Rightarrow> mstate" where
  "log l msg err st = st\<lparr>logs := logs st @ [(l, msg, err)]\<rparr>"

definition call_time_Now :: "manager \<Rightarrow> mstate \<Rightarrow> int \<times> mstate" where
  "call_time_Now m st =
     (let now = time_Now m (calls st) in (now, st\<lparr>calls := calls st @ [TimeNow now]\<rparr>))"

definition call_Stages_Find ::
  "manager \<Rightarrow> int \<Rightarrow> mstate \<Rightarrow> (stage option \<times> error option) \<times> mstate" where
  "call_Stages_Find m i st =
     (let r = Stages_Find m (calls st) i
      in (r, st\<lparr>calls := calls st @ [StagesFind i (fst r) (snd r)]\<rparr>))"

definition call_Stages_Update :: "manager \<Rightarrow> stage \<Rightarrow> mstate \<Rightarrow> error option \<times> mstate" where
  "call_Stages_Update m stage st =
     (let r = Stages_Update m (calls st) stage
      in (r, st\<lparr>calls := calls st @ [StagesUpdate stage r]\<rparr>))"

definition call_Stages_ListSteps ::
  "manager \<Rightarrow> int \<Rightarrow> mstate \<Rightarrow> (stage list \<times> error option) \<times> mstate" where
  "call_Stages_ListSteps m i st =
     (let r = Stages_ListSteps m (calls st) i
      in (r, st\<lparr>calls := calls st @ [StagesListSteps i (fst r) (snd r)]\<rparr>))"

definition call_Steps_Update :: "manager \<Rightarrow> step \<Rightarrow> mstate \<Rightarrow> error option \<times> mstate" where
  "call_Steps_Update m step st =
     (let r = Steps_Update m (calls st) step
      in (r, st\<lparr>calls := calls st @ [StepsUpdate step r]\<rparr>))"

definition call_Builds_Update :: "manager \<Rightarrow> build \<Rightarrow> mstate \<Rightarrow> error option \<times> mstate" where
  "call_Builds_Update m b st =
     (let r = Builds_Update m (calls st) b
      in (r, st\<lparr>calls := calls st @ [BuildsUpdate b r]\<rparr>))"

definition call_Scheduler_Cancel :: "manager \<Rightarrow> int \<Rightarrow> mstate \<Rightarrow> error option \<times> mstate" where
  "call_Scheduler_Cancel m i st =
     (let r = Scheduler_Cancel m (calls st) i
      in (r, st\<lparr>calls := calls st @ [SchedulerCancel i r]\<rparr>))"

definition call_Scheduler_Cancelled ::
  "manager \<Rightarrow> int \<Rightarrow> mstate \<Rightarrow> (bool \<times> error option) \<times> mstate" where
  "call_Scheduler_Cancelled m i st =
     (let r = Scheduler_Cancelled m (calls st) i
      in (r, st\<lparr>calls := calls st @ [SchedulerCancelled i (fst r) (snd r)]\<rparr>))"

definition call_Status_Send ::
  "manager \<Rightarrow> user \<Rightarrow> status_input \<Rightarrow> mstate \<Rightarrow> error option \<times> mstate" where
  "call_Status_Send m u inp st =
     (let r = Status_Send m (calls st) u inp
      in (r, st\<lparr>calls := calls st @ [StatusSend u inp r]\<rparr>))"

definition call_Webhook_Send :: "manager \<Rightarrow> webhook_data \<Rightarrow> mstate \<Rightarrow> error option \<times> mstate" where
  "call_Webhook_Send m d st =
     (let r = Webhook_Send m (calls st) d
      in (r, st\<lparr>calls := calls st @ [WebhookSend d r]\<rparr>))"

definition call_Logz_Delete :: "manager \<Rightarrow> int \<Rightarrow> mstate \<Rightarrow> error option \<times> mstate" where
  "call_Logz_Delete m i st =
     (let r = Logz_Delete m (calls st) i
      in (r, st\<lparr>calls := calls st @ [LogzDelete i r]\<rparr>))"

definition call_updater_do :: "manager \<Rightarrow> step \<Rightarrow> mstate \<Rightarrow> error option \<times> mstate" where
  "call_updater_do m step st =
     (let r = updater_do m (calls st) step
      in (r, st\<lparr>calls := calls st @ [UpdaterDo step r]\<rparr>))"

text \<open>
  What a call of a manager function comes to: it returns a value, or it
  panics on a nil pointer.
\<close>

datatype 'a outcome = Return 'a | Panic

subsection \<open>Accept\<close>

text \<open>
  \<^verbatim>\<open>Manager.Accept\<close>. When \<^verbatim>\<open>Stages.Find\<close> returns no error the stage pointer is
  read (\<^verbatim>\<open>stage.Machine\<close>), which panics if the pointer is nil.
\<close>

definition Accept :: "manager \<Rightarrow> int \<Rightarrow> string \<Rightarrow> mstate \<Rightarrow> error option outcome \<times> mstate" where
  "Accept m i machine st =
     (let st = log Debug ''manager: accept stage'' None st in
      case call_Stages_Find m i st of
        ((stage, Some err), st) \<Rightarrow>
          (Return (Some err), log Warn ''manager: cannot find stage'' (Some err) st)
      | ((None, None), st) \<Rightarrow> (Panic, st)
      | ((Some stage, None), st) \<Rightarrow>
          if stage_Machine stage \<noteq> ''''
          then (Return (Some ErrOptimisticLock),
                log Debug ''manager: stage already assigned. abort.'' None st)
          else
            (case call_time_Now m st of
               (now, st) \<Rightarrow>
                 let stage = stage\<lparr>stage_Machine := machine, stage_Status := StatusPending,
                                    stage_Updated := now\<rparr> in
                 (case call_Stages_Update m stage st of
                    (err, st) \<Rightarrow>
                      if err = Some ErrOptimisticLock
                      then (Return err, log Debug ''manager: stage processed by another agent'' err st)
                      else if err \<noteq> None
                      then (Return err, log Debug ''manager: cannot update stage'' err st)
                      else (Return err, log Debug ''manager: stage accepted'' None st))))"

subsection \<open>After\<close>

text \<open>
  \<^verbatim>\<open>multierror.Append(err, e)\<close> of the go-multierror library: the errors so far
  followed by the new one, each flattened when it is itself a multi-error.
\<close>

fun multierror_Errors :: "error \<Rightarrow> error list" where
  "multierror_Errors (MultiError es) = es"
| "multierror_Errors e = [e]"

definition multierror_Append :: "error option \<Rightarrow> error \<Rightarrow> error" where
  "multierror_Append errs e =
     (case errs of
        None \<Rightarrow> MultiError (multierror_Errors e)
      | Some e0 \<Rightarrow> MultiError (multierror_Errors e0 @ multierror_Errors e))"

text \<open>\<^verbatim>\<open>Manager.After\<close>; \<open>errs\<close> is the variable \<^verbatim>\<open>errs\<close>, nil at first.\<close>

definition After :: "manager \<Rightarrow> step \<Rightarrow> mstate \<Rightarrow> error option \<times> mstate" where
  "After m step st =
     (let st = log Debug ''manager: updating step status'' None st;
          errs = None in
      case call_updater_do m step st of
        (r, st) \<Rightarrow>
          (case (case r of
                   Some err \<Rightarrow> (Some (multierror_Append errs err),
                                log Warn ''manager: cannot update step'' (Some err) st)
                 | None \<Rightarrow> (errs, st)) of
             (errs, st) \<Rightarrow>
               (case call_Logz_Delete m (step_ID step) st of
                  (Some err, st) \<Rightarrow>
                    (errs, log Warn ''manager: cannot teardown log stream'' (Some err) st)
                | (None, st) \<Rightarrow> (errs, st))))"

subsection \<open>Watch\<close>

text \<open>
  \<^verbatim>\<open>Manager.Watch\<close>. The test after \<^verbatim>\<open>Stages.Find\<close> is \<^verbatim>\<open>err == nil\<close>: the branch
  that logs "cannot find stage" and returns \<^verbatim>\<open>ok, err\<close> is taken when the stage
  was found, and \<^verbatim>\<open>stage.IsDone()\<close> is reached only when \<^verbatim>\<open>Find\<close> failed, where
  it reads through whatever pointer came with the error.
\<close>

definition Watch :: "manager \<Rightarrow> int \<Rightarrow> mstate \<Rightarrow> (bool \<times> error option) outcome \<times> mstate" where
  "Watch m i st =
     (case call_Scheduler_Cancelled m i st of
        ((ok, Some err), st) \<Rightarrow> (Return (ok, Some err), st)
      | ((ok, None), st) \<Rightarrow>
          (case call_Stages_Find m i st of
             ((stage, None), st) \<Rightarrow>
               (Return (ok, None), log Warn ''manager: cannot find stage'' None st)
           | ((None, Some err), st) \<Rightarrow> (Panic, st)
           | ((Some stage, Some err), st) \<Rightarrow> (Return (stage_IsDone stage, None), st)))"

subsection \<open>Cancel\<close>

text \<open>
  The body of the loop over \<^verbatim>\<open>stage.Steps\<close> for a step that is not done,
  lines 525 to 535: the error to return, if the write failed, and the step as
  it then stands.
\<close>

definition cancel_step :: "manager \<Rightarrow> step \<Rightarrow> mstate \<Rightarrow> error option \<times> step \<times> mstate" where
  "cancel_step m step st =
     (case (if step_Started step \<noteq> 0 then (step\<lparr>step_Status := StatusKilled\<rparr>, st)
            else (case call_time_Now m st of
                    (now, st) \<Rightarrow> (step\<lparr>step_Status := StatusSkipped, step_Started := now\<rparr>, st))) of
        (step, st) \<Rightarrow>
          (case call_time_Now m st of
             (now, st) \<Rightarrow>
               let step = step\<lparr>step_Stopped := now, step_ExitCode := 130\<rparr> in
               (case call_Steps_Update m step st of
                  (Some err, st) \<Rightarrow> (Some (Errorf ''cannot update step status: '' err), step, st)
                | (None, st) \<Rightarrow> (None, step, st))))"

text \<open>
  The loop over \<^verbatim>\<open>stage.Steps\<close>: the steps are reached through pointers and
  changed in place, so the list as it stands afterwards is returned, also when
  an error ends the loop early.
\<close>

fun cancel_steps :: "manager \<Rightarrow> step list \<Rightarrow> mstate \<Rightarrow> error option \<times> step list \<times> mstate" where
  "cancel_steps m [] st = (None, [], st)"
| "cancel_steps m (step # steps) st =
     (if step_IsDone step
      then (case cancel_steps m steps st of (err, steps', st') \<Rightarrow> (err, step # steps', st'))
      else (case cancel_step m step st of
              (Some err, step', st') \<Rightarrow> (Some err, step' # steps, st')
            | (None, step', st') \<Rightarrow>
                (case cancel_steps m steps st' of
                   (err, steps', st'') \<Rightarrow> (err, step' # steps', st''))))"

text \<open>The body of the loop over the stages for a stage that is not done, lines 510 to 536.\<close>

definition cancel_stage :: "manager \<Rightarrow> stage \<Rightarrow> mstate \<Rightarrow> error option \<times> stage \<times> mstate" where
  "cancel_stage m stage st =
     (case (if stage_Started stage \<noteq> 0 then (stage\<lparr>stage_Status := StatusKilled\<rparr>, st)
            else (case call_time_Now m st of
                    (now, st) \<Rightarrow> (stage\<lparr>stage_Status := StatusSkipped, stage_Started := now\<rparr>, st))) of
        (stage, st) \<Rightarrow>
          (case call_time_Now m st of
             (now, st) \<Rightarrow>
               let stage = stage\<lparr>stage_Stopped := now\<rparr> in
               (case call_Stages_Update m stage st of
                  (Some err, st) \<Rightarrow> (Some (Errorf ''cannot update stage status: '' err), stage, st)
                | (None, st) \<Rightarrow>
                    (case cancel_steps m (stage_Steps stage) st of
                       (err, steps, st) \<Rightarrow> (err, stage\<lparr>stage_Steps := steps\<rparr>, st)))))"

fun cancel_stages :: "manager \<Rightarrow> stage list \<Rightarrow> mstate \<Rightarrow> error option \<times> stage list \<times> mstate" where
  "cancel_stages m [] st = (None, [], st)"
| "cancel_stages m (stage # stages) st =
     (if stage_IsDone stage
      then (case cancel_stages m stages st of (err, stages', st') \<Rightarrow> (err, stage # stages', st'))
      else (case cancel_stage m stage st of
              (Some err, stage', st') \<Rightarrow> (Some err, stage' # stages, st')
            | (None, stage', st') \<Rightarrow>
                (case cancel_stages m stages st' of
                   (err, stages', st'') \<Rightarrow> (err, stage' # stages', st''))))"

text \<open>
  \<^verbatim>\<open>Manager.Cancel\<close>. The build is reached through a pointer and changed in
  place: the second component of the result is the caller's build as the call
  leaves it. \<^verbatim>\<open>build.Stages\<close> is assigned only after both loops have finished.
\<close>

definition Cancel ::
  "manager \<Rightarrow> build \<Rightarrow> repository \<Rightarrow> user option \<Rightarrow> mstate \<Rightarrow> error option \<times> build \<times> mstate" where
  "Cancel m build repo user st =
     (if build_Status build \<noteq> StatusPending \<and> build_Status build \<noteq> StatusRunning
      then (Some (Err ''cannot cancel completed build''), build, st)
      else
        (case call_time_Now m st of
           (now, st) \<Rightarrow>
        let build = build\<lparr>build_Status := StatusKilled, build_Finished := now\<rparr> in
        (case (if build_Started build = 0
               then (case call_time_Now m st of (now, st) \<Rightarrow> (build\<lparr>build_Started := now\<rparr>, st))
               else (build, st)) of
           (build, st) \<Rightarrow>
        (case call_Builds_Update m build st of
           (Some err, st) \<Rightarrow>
             (Some (Errorf ''cannot update build status to cancelled: '' err), build, st)
         | (None, st) \<Rightarrow>
        (case call_Scheduler_Cancel m (build_ID build) st of
           (Some err, st) \<Rightarrow>
             (Some (Errorf ''cannot signal cancelled build is complete: '' err), build, st)
         | (None, st) \<Rightarrow>
        (case (case user of
                 None \<Rightarrow> (None, st)
               | Some u \<Rightarrow> call_Status_Send m u \<lparr>input_Repo = repo, input_Build = build\<rparr> st) of
           (Some err, st) \<Rightarrow> (Some (Errorf ''cannot set status: '' err), build, st)
         | (None, st) \<Rightarrow>
        (case call_Stages_ListSteps m (build_ID build) st of
           ((stages, Some err), st) \<Rightarrow>
             (Some (Errorf ''cannot list build stages: '' err), build, st)
         | ((stages, None), st) \<Rightarrow>
        (case cancel_stages m stages st of
           (Some err, stages, st) \<Rightarrow> (Some err, build, st)
         | (None, stages, st) \<Rightarrow>
        let build = build\<lparr>build_Stages := stages\<rparr>;
            payload = \<lparr>hook_Event = WebhookEventBuild, hook_Action = WebhookActionUpdated,
                       hook_Repo = repo, hook_Build = build\<rparr> in
        (case call_Webhook_Send m payload st of
           (Some err, st) \<Rightarrow>
             (None, build, log Warn ''manager: cannot send global webhook'' (Some err) st)
         | (None, st) \<Rightarrow> (None, build, st))))))))))"

section \<open>Concrete builds, stages, workers and collaborators\<close>

text \<open>
  Values for the worked examples that follow the theorems: a pending
  linux/amd64 stage named "build" of repository 1, a worker, and a manager
  whose collaborators all succeed and whose clock advances with every call.
\<close>

definition example_build :: "int \<Rightarrow> status \<Rightarrow> string \<Rightarrow> build_fields" where
  "example_build i st src =
     \<lparr>build_ID = i, build_RepoID = 1, build_Status = st, build_Source = src,
      build_Started = 0, build_Finished = 0\<rparr>"

definition example_stage :: "int \<Rightarrow> int \<Rightarrow> int \<Rightarrow> build_fields option \<Rightarrow> stage" where
  "example_stage i bld lim b =
     \<lparr>stage_ID = i, stage_BuildID = bld, stage_RepoID = 1, stage_Name = ''build'',
      stage_Status = StatusPending, stage_Machine = '''', stage_OS = ''linux'',
      stage_Arch = ''amd64'', stage_Variant = '''', stage_Kernel = '''', stage_Limit = lim,
      stage_Labels = fmempty, stage_Started = 0, stage_Stopped = 0, stage_Updated = 0,
      stage_Steps = [], stage_Build = b\<rparr>"

definition example_worker :: "nat \<Rightarrow> string \<Rightarrow> (string, string) fmap \<Rightarrow> worker" where
  "example_worker c arch ls =
     \<lparr>w_os = ''linux'', w_arch = arch, w_kernel = '''', w_variant = '''', w_labels = ls,
      w_channel = c\<rparr>"

definition example_step :: "int \<Rightarrow> status \<Rightarrow> int \<Rightarrow> step" where
  "example_step i st started =
     \<lparr>step_ID = i, step_StageID = 7, step_Name = ''test'', step_Status = st,
      step_Started = started, step_Stopped = 0, step_ExitCode = 0\<rparr>"

definition example_build_of :: "int \<Rightarrow> status \<Rightarrow> int \<Rightarrow> build" where
  "example_build_of i st started =
     \<lparr>build_ID = i, build_RepoID = 1, build_Status = st, build_Source = ''master'',
      build_Started = started, build_Finished = 0, build_Stages = []\<rparr>"

definition example_repo :: repository where
  "example_repo = \<lparr>repo_ID = 1, repo_Slug = ''octocat/hello-world''\<rparr>"

definition example_user :: user where
  "example_user = \<lparr>user_ID = 1, user_Login = ''octocat''\<rparr>"

definition example_manager :: manager where
  "example_manager =
     \<lparr>Stages_Find = (\<lambda>h i. (None, Some (Err ''sql: no rows in result set''))),
      Stages_Update = (\<lambda>h s. None),
      Stages_ListSteps = (\<lambda>h i. ([], None)),
      Steps_Update = (\<lambda>h s. None),
      Builds_Update = (\<lambda>h b. None),
      Scheduler_Cancel = (\<lambda>h i. None),
      Scheduler_Cancelled = (\<lambda>h i. (False, None)),
      Status_Send = (\<lambda>h u inp. None),
      Webhook_Send = (\<lambda>h d. None),
      Logz_Delete = (\<lambda>h i. None),
      updater_do = (\<lambda>h s. None),
      time_Now = (\<lambda>h. 1000 + int (length h))\<rparr>"

definition start :: mstate where
  "start = \<lparr>calls = [], logs = []\<rparr>"

section \<open>Properties of the queue\<close>

subsection \<open>The concurrency limit\<close>

lemma withinLimits_count_eq:
  "withinLimits_count stage siblings count =
     count + int (length (filter (\<lambda>s. stage_RepoID s = stage_RepoID stage \<and>
        stage_Name s = stage_Name stage \<and> stage_ID s < stage_ID stage) siblings))"
  by (induction siblings arbitrary: count) auto

text \<open>
  Claim C5. In a dispatch pass over the fetched list of incomplete stages, a
  stage with limit \<open>L > 0\<close> passes the concurrency-limit filter if and only if
  fewer than \<open>L\<close> other stages of the list have the same repository, the same
  name and a smaller id; a stage with limit \<open>0\<close> always passes.
\<close>

theorem withinLimits_oldest:
  "(stage_Limit stage = 0 \<longrightarrow> withinLimits stage items) \<and>
   (0 < stage_Limit stage \<longrightarrow>
      (withinLimits stage items \<longleftrightarrow>
       int (length (filter (\<lambda>s. stage_RepoID s = stage_RepoID stage \<and>
          stage_Name s = stage_Name stage \<and> stage_ID s < stage_ID stage) items))
         < stage_Limit stage))"
  by (simp add: withinLimits_def withinLimits_count_eq)

text \<open>
  Three pending stages named "build" of one repository with limit 2: the two
  oldest pass, the third does not; with limit 0 the third passes too.
\<close>

theorem withinLimits_oldest_witness:
  "withinLimits (example_stage 1 10 2 None)
     [example_stage 1 10 2 None, example_stage 2 11 2 None, example_stage 3 12 2 None] \<and>
   withinLimits (example_stage 2 11 2 None)
     [example_stage 1 10 2 None, example_stage 2 11 2 None, example_stage 3 12 2 None] \<and>
   \<not> withinLimits (example_stage 3 12 2 None)
     [example_stage 1 10 2 None, example_stage 2 11 2 None, example_stage 3 12 2 None] \<and>
   withinLimits (example_stage 3 12 0 None)
     [example_stage 1 10 0 None, example_stage 2 11 0 None, example_stage 3 12 0 None]"
  using withinLimits_oldest [of "example_stage 1 10 2 None"
      "[example_stage 1 10 2 None, example_stage 2 11 2 None, example_stage 3 12 2 None]"]
    withinLimits_oldest [of "example_stage 2 11 2 None"
      "[example_stage 1 10 2 None, example_stage 2 11 2 None, example_stage 3 12 2 None]"]
    withinLimits_oldest [of "example_stage 3 12 2 None"
      "[example_stage 1 10 2 None, example_stage 2 11 2 None, example_stage 3 12 2 None]"]
    withinLimits_oldest [of "example_stage 3 12 0 None"
      "[example_stage 1 10 0 None, example_stage 2 11 0 None, example_stage 3 12 0 None]"]
  by (simp add: example_stage_def)

subsection \<open>Branch precedence\<close>

text \<open>
  Claim C10. For a stage whose build is running, \<^verbatim>\<open>withinBranchLimits\<close> returns
  true whatever the other stages of the list are: the rule for master builds
  applies only to stages of builds that are not yet running.
\<close>

theorem withinBranchLimits_running:
  "stage_Build stage = Some b \<Longrightarrow> build_Status b = StatusRunning \<Longrightarrow>
   withinBranchLimits stage siblings = Some True"
  by (simp add: withinBranchLimits_def)

theorem withinBranchLimits_running_witness:
  "withinBranchLimits (example_stage 9 11 0 (Some (example_build 11 StatusRunning ''master'')))
     [example_stage 7 10 0 (Some (example_build 10 StatusPending ''master'')),
      example_stage 9 11 0 (Some (example_build 11 StatusRunning ''master''))] = Some True"
  using withinBranchLimits_running [of
      "example_stage 9 11 0 (Some (example_build 11 StatusRunning ''master''))"
      "example_build 11 StatusRunning ''master''"]
  by (simp add: example_stage_def example_build_def)

text \<open>
  The loop answers at the first stage of another build of the same repository
  at which both builds have source master. When an older such stage is in the
  list and nothing newer stands before it, the answer is false.
\<close>

lemma loop_older_first:
  assumes "\<forall>s\<in>set pre. stage_Build s \<noteq> None"
    and "stage_Build old = Some ob" "build_Source ob = ''master''" "build_Source b = ''master''"
    and "stage_RepoID old = stage_RepoID stage" "stage_BuildID old < stage_BuildID stage"
    and "\<forall>s\<in>set pre. \<forall>sb. stage_RepoID s = stage_RepoID stage \<and> stage_Build s = Some sb \<and>
           build_Source sb = ''master'' \<longrightarrow> stage_BuildID s \<le> stage_BuildID stage"
  shows "withinBranchLimits_loop stage b (pre @ old # post) = Some False"
  using assms
proof (induction pre)
  case Nil
  then show ?case by simp
next
  case (Cons s pre)
  then obtain sb where sb: "stage_Build s = Some sb" by auto
  show ?case
  proof (cases "stage_BuildID s = stage_BuildID stage \<or> stage_RepoID s \<noteq> stage_RepoID stage")
    case True
    then show ?thesis using Cons by simp
  next
    case False
    show ?thesis
    proof (cases "build_Source sb = ''master''")
      case True
      with False sb Cons.prems(7) have "stage_BuildID s \<le> stage_BuildID stage" by simp
      then show ?thesis using False sb True Cons.prems(4) by simp
    next
      case False
      then show ?thesis using sb Cons by simp
    qed
  qed
qed

lemma loop_oldest:
  assumes "\<forall>s\<in>set items. stage_Build s \<noteq> None"
    and "\<forall>s\<in>set items. \<forall>sb. stage_RepoID s = stage_RepoID stage \<and> stage_Build s = Some sb \<and>
           build_Source sb = ''master'' \<longrightarrow> stage_BuildID stage \<le> stage_BuildID s"
  shows "withinBranchLimits_loop stage b items = Some True"
  using assms
proof (induction items)
  case Nil
  then show ?case by simp
next
  case (Cons s items)
  then obtain sb where sb: "stage_Build s = Some sb" by auto
  show ?case
  proof (cases "stage_BuildID s = stage_BuildID stage \<or> stage_RepoID s \<noteq> stage_RepoID stage")
    case True
    then show ?thesis using Cons by simp
  next
    case False
    show ?thesis
    proof (cases "build_Source sb = ''master''")
      case True
      with False sb Cons.prems(2) have "stage_BuildID stage \<le> stage_BuildID s" by simp
      then show ?thesis using False sb True Cons by simp
    next
      case False
      then show ?thesis using sb Cons by simp
    qed
  qed
qed

text \<open>
  Claim C6, as the spec states it: of two incomplete stages of one repository
  whose builds both have source master and different ids, the stage of the
  newer build is filtered out by the branch-precedence check. The code does
  otherwise in two cases. Build 11 is running and build 10, older, is pending:
  the stage of build 11 passes. Builds 10, 11 and 12 are pending and a stage of
  build 12 stands first in the list: the stage of build 11 passes, although the
  stage of build 10 is in the list.
\<close>

theorem withinBranchLimits_master_counterexample:
  "stage_RepoID (example_stage 7 10 0 (Some (example_build 10 StatusPending ''master'')))
     = stage_RepoID (example_stage 9 11 0 (Some (example_build 11 StatusRunning ''master''))) \<and>
   stage_BuildID (example_stage 7 10 0 (Some (example_build 10 StatusPending ''master'')))
     < stage_BuildID (example_stage 9 11 0 (Some (example_build 11 StatusRunning ''master''))) \<and>
   withinBranchLimits (example_stage 9 11 0 (Some (example_build 11 StatusRunning ''master'')))
     [example_stage 7 10 0 (Some (example_build 10 StatusPending ''master'')),
      example_stage 9 11 0 (Some (example_build 11 StatusRunning ''master''))] = Some True \<and>
   withinBranchLimits (example_stage 8 11 0 (Some (example_build 11 StatusPending ''master'')))
     [example_stage 6 12 0 (Some (example_build 12 StatusPending ''master'')),
      example_stage 7 10 0 (Some (example_build 10 StatusPending ''master'')),
      example_stage 8 11 0 (Some (example_build 11 StatusPending ''master''))] = Some True"
  by (simp add: withinBranchLimits_def example_stage_def example_build_def)

text \<open>
  Claim C6, amended. Every stage of the list carries its build. Take a stage
  whose build has source master and is not running, and an older stage \<open>old\<close>
  of the list: same repository, source master, smaller build id. If no stage
  of a newer master build of that repository stands before \<open>old\<close> in the list,
  the check filters the stage out. Once \<open>old\<close> has left the list and no stage
  of an older master build of the repository remains, the stage passes.
\<close>

theorem withinBranchLimits_master:
  assumes "\<forall>s\<in>set (pre @ old # post). stage_Build s \<noteq> None"
    and "stage_Build stage = Some b" "build_Status b \<noteq> StatusRunning"
    and "build_Source b = ''master''"
    and "stage_Build old = Some ob" "build_Source ob = ''master''"
    and "stage_RepoID old = stage_RepoID stage" "stage_BuildID old < stage_BuildID stage"
    and "\<forall>s\<in>set pre. \<forall>sb. stage_RepoID s = stage_RepoID stage \<and> stage_Build s = Some sb \<and>
           build_Source sb = ''master'' \<longrightarrow> stage_BuildID s \<le> stage_BuildID stage"
  shows "withinBranchLimits stage (pre @ old # post) = Some False \<and>
         ((\<forall>s\<in>set (pre @ post). \<forall>sb. stage_RepoID s = stage_RepoID stage \<and>
              stage_Build s = Some sb \<and> build_Source sb = ''master'' \<longrightarrow>
              stage_BuildID stage \<le> stage_BuildID s) \<longrightarrow>
          withinBranchLimits stage (pre @ post) = Some True)"
proof
  have "withinBranchLimits_loop stage b (pre @ old # post) = Some False"
    using assms loop_older_first [of pre old ob b stage post] by simp
  then show "withinBranchLimits stage (pre @ old # post) = Some False"
    using assms(2,3) by (simp add: withinBranchLimits_def)
next
  have "\<forall>s\<in>set (pre @ post). stage_Build s \<noteq> None" using assms(1) by auto
  then show "(\<forall>s\<in>set (pre @ post). \<forall>sb. stage_RepoID s = stage_RepoID stage \<and>
              stage_Build s = Some sb \<and> build_Source sb = ''master'' \<longrightarrow>
              stage_BuildID stage \<le> stage_BuildID s) \<longrightarrow>
          withinBranchLimits stage (pre @ post) = Some True"
    using assms(2,3) by (auto simp: withinBranchLimits_def intro!: loop_oldest)
qed

text \<open>
  Builds 10 and 11 of one repository, both on master and pending, one stage
  each: the stage of build 11 is filtered out while the stage of build 10 is
  in the list, and passes once it is alone.
\<close>

theorem withinBranchLimits_master_witness:
  "withinBranchLimits (example_stage 8 11 0 (Some (example_build 11 StatusPending ''master'')))
     [example_stage 7 10 0 (Some (example_build 10 StatusPending ''master'')),
      example_stage 8 11 0 (Some (example_build 11 StatusPending ''master''))] = Some False \<and>
   withinBranchLimits (example_stage 8 11 0 (Some (example_build 11 StatusPending ''master'')))
     [example_stage 8 11 0 (Some (example_build 11 StatusPending ''master''))] = Some True"
  using withinBranchLimits_master [of "[]"
      "example_stage 7 10 0 (Some (example_build 10 StatusPending ''master''))"
      "[example_stage 8 11 0 (Some (example_build 11 StatusPending ''master''))]"
      "example_stage 8 11 0 (Some (example_build 11 StatusPending ''master''))"
      "example_build 11 StatusPending ''master''"
      "example_build 10 StatusPending ''master''"]
  by (simp add: example_stage_def example_build_def)

subsection \<open>Platform matching\<close>

lemma checkLabels_eq:
  assumes "checkLabels a b"
  shows "a = b"
proof -
  from assms have card: "fcard (fmdom a) = fcard (fmdom b)"
    and sub: "\<And>k v. fmlookup a k = Some v \<Longrightarrow> fmlookup b k = Some v"
    by (auto simp: checkLabels_def len_map_def fmpred_iff split: if_splits option.splits)
  have "fmdom a |\<subseteq>| fmdom b"
    using sub by (meson fmdomE fmdomI fsubsetI)
  then have dom: "fmdom a = fmdom b"
    using card by (metis fcard_seteq order_refl)
  show ?thesis
  proof (rule fmap_ext)
    fix k
    show "fmlookup a k = fmlookup b k"
    proof (cases "fmlookup a k")
      case None
      then have "k |\<notin>| fmdom b" using dom by (metis fmdom_notI)
      then show ?thesis using None by (simp add: fmdom_notD)
    next
      case (Some v)
      then show ?thesis using sub by simp
    qed
  qed
qed

lemma len_map_empty: "0 < len_map m \<longleftrightarrow> m \<noteq> fmempty"
  by (metis fcard_fempty fmdom_empty fmrestrict_fset_dom fmrestrict_fset_null len_map_def
      less_numeral_extra(3) fcard_0_eq zero_less_iff_neq_zero)

lemma worker_accepts_platform:
  "worker_accepts w item \<Longrightarrow>
     w_os w = stage_OS item \<and> w_arch w = stage_Arch item \<and>
     (stage_Variant item = '''' \<or> stage_Variant item = w_variant w) \<and>
     (stage_Kernel item = '''' \<or> stage_Kernel item = w_kernel w) \<and>
     (stage_Labels item \<noteq> fmempty \<or> w_labels w \<noteq> fmempty \<longrightarrow> stage_Labels item = w_labels w)"
  by (auto simp: worker_accepts_def len_map_empty dest: checkLabels_eq split: if_splits)

lemma select_worker_accepts:
  "select_worker item ws = Some w \<Longrightarrow> worker_accepts w item"
  by (induction ws) (auto split: if_splits)

lemma dispatch_delivered:
  "set (delivered (dispatch receiving order items rest ws acc))
     \<subseteq> set acc \<union> {(w, item). worker_accepts w item}"
proof (induction rest arbitrary: ws acc)
  case Nil
  then show ?case by simp
next
  case (Cons a rest)
  show ?case
  proof (cases "select_worker a (order a ws)")
    case None
    then show ?thesis using Cons.IH [of ws acc]
      by (simp split: option.splits)
  next
    case (Some x)
    then have "worker_accepts x a" by (rule select_worker_accepts)
    then have "set (acc @ [(x, a)]) \<union> {(w, item). worker_accepts w item}
        = set acc \<union> {(w, item). worker_accepts w item}"
      by auto
    then show ?thesis
      using Some Cons.IH [of ws acc] Cons.IH [of "removeAll x ws" "acc @ [(x, a)]"]
      by (simp split: option.splits)
  qed
qed

text \<open>
  Claim C2. For every stage a dispatch pass hands to a waiting worker, the
  worker's platform matches the stage: same os, same arch, the stage's variant
  empty or the worker's, the stage's kernel empty or the worker's, and, if
  either side has labels, the two label maps equal.
\<close>

theorem signal_delivers_matching:
  "(w, item) \<in> set (delivered (signal receiving order listIncomplete q)) \<Longrightarrow>
     w_os w = stage_OS item \<and> w_arch w = stage_Arch item \<and>
     (stage_Variant item = '''' \<or> stage_Variant item = w_variant w) \<and>
     (stage_Kernel item = '''' \<or> stage_Kernel item = w_kernel w) \<and>
     (stage_Labels item \<noteq> fmempty \<or> w_labels w \<noteq> fmempty \<longrightarrow> stage_Labels item = w_labels w)"
proof -
  assume "(w, item) \<in> set (delivered (signal receiving order listIncomplete q))"
  then have "worker_accepts w item"
    using dispatch_delivered [of receiving order _ _ "q_workers q" "[]"]
    by (auto simp: signal_def Let_def split: if_splits sum.splits)
  then show ?thesis by (rule worker_accepts_platform)
qed

text \<open>
  A stage labelled gpu=yes, an arm64 worker and an amd64 worker carrying the
  same label: the pass hands the stage to the amd64 worker.
\<close>

theorem signal_delivers_matching_witness:
  "delivered (signal (\<lambda>w. True) (\<lambda>item ws. ws)
      (Inr [(example_stage 7 10 0 (Some (example_build 10 StatusPending ''master'')))
              \<lparr>stage_Labels := fmupd ''gpu'' ''yes'' fmempty\<rparr>])
      \<lparr>q_paused = False,
       q_workers = [example_worker 0 ''arm64'' (fmupd ''gpu'' ''yes'' fmempty),
                    example_worker 1 ''amd64'' (fmupd ''gpu'' ''yes'' fmempty)]\<rparr>)
     = [(example_worker 1 ''amd64'' (fmupd ''gpu'' ''yes'' fmempty),
         (example_stage 7 10 0 (Some (example_build 10 StatusPending ''master'')))
              \<lparr>stage_Labels := fmupd ''gpu'' ''yes'' fmempty\<rparr>)] \<and>
   w_arch (example_worker 1 ''amd64'' (fmupd ''gpu'' ''yes'' fmempty)) =
     stage_Arch ((example_stage 7 10 0 (Some (example_build 10 StatusPending ''master'')))
              \<lparr>stage_Labels := fmupd ''gpu'' ''yes'' fmempty\<rparr>) \<and>
   stage_Labels ((example_stage 7 10 0 (Some (example_build 10 StatusPending ''master'')))
              \<lparr>stage_Labels := fmupd ''gpu'' ''yes'' fmempty\<rparr>) =
     w_labels (example_worker 1 ''amd64'' (fmupd ''gpu'' ''yes'' fmempty))"
proof -
  have d: "delivered (signal (\<lambda>w. True) (\<lambda>item ws. ws)
      (Inr [(example_stage 7 10 0 (Some (example_build 10 StatusPending ''master'')))
              \<lparr>stage_Labels := fmupd ''gpu'' ''yes'' fmempty\<rparr>])
      \<lparr>q_paused = False,
       q_workers = [example_worker 0 ''arm64'' (fmupd ''gpu'' ''yes'' fmempty),
                    example_worker 1 ''amd64'' (fmupd ''gpu'' ''yes'' fmempty)]\<rparr>)
     = [(example_worker 1 ''amd64'' (fmupd ''gpu'' ''yes'' fmempty),
         (example_stage 7 10 0 (Some (example_build 10 StatusPending ''master'')))
              \<lparr>stage_Labels := fmupd ''gpu'' ''yes'' fmempty\<rparr>)]"
    by (simp add: signal_def Let_def withinBranchLimits_def withinLimits_def worker_accepts_def
        checkLabels_def len_map_def example_stage_def example_build_def example_worker_def
        fmpred_iff)
  show ?thesis
    using d signal_delivers_matching [of
        "example_worker 1 ''amd64'' (fmupd ''gpu'' ''yes'' fmempty)"
        "(example_stage 7 10 0 (Some (example_build 10 StatusPending ''master'')))
              \<lparr>stage_Labels := fmupd ''gpu'' ''yes'' fmempty\<rparr>"
        "\<lambda>w. True" "\<lambda>item ws. ws"
        "Inr [(example_stage 7 10 0 (Some (example_build 10 StatusPending ''master'')))
              \<lparr>stage_Labels := fmupd ''gpu'' ''yes'' fmempty\<rparr>]"
        "\<lparr>q_paused = False,
          q_workers = [example_worker 0 ''arm64'' (fmupd ''gpu'' ''yes'' fmempty),
                       example_worker 1 ''amd64'' (fmupd ''gpu'' ''yes'' fmempty)]\<rparr>"]
    by simp
qed

section \<open>Properties of the build manager\<close>

subsection \<open>Accept\<close>

text \<open>
  Claim C1. For every call of \<^verbatim>\<open>Accept\<close> with a stage id and a machine: if the
  stage re-read from the store has a non-empty machine, \<^verbatim>\<open>Accept\<close> returns the
  optimistic-lock error and writes nothing; otherwise it sets the stage's
  machine to the given value, its status to pending and its update time to the
  current time, hands the stage to the store's update, and returns what the
  update returned, the store's optimistic-lock error included.
\<close>

theorem Accept_optimistic_lock:
  assumes "Stages_Find m (calls st) i = (Some stage, None)"
  shows "(stage_Machine stage \<noteq> '''' \<longrightarrow>
            fst (Accept m i machine st) = Return (Some ErrOptimisticLock) \<and>
            calls (snd (Accept m i machine st)) = calls st @ [StagesFind i (Some stage) None]) \<and>
         (stage_Machine stage = '''' \<longrightarrow>
            (let h = calls st @ [StagesFind i (Some stage) None];
                 now = time_Now m h;
                 stage' = stage\<lparr>stage_Machine := machine, stage_Status := StatusPending,
                                 stage_Updated := now\<rparr>;
                 r = Stages_Update m (h @ [TimeNow now]) stage'
             in fst (Accept m i machine st) = Return r \<and>
                calls (snd (Accept m i machine st)) = h @ [TimeNow now, StagesUpdate stage' r]))"
  using assms
  by (simp add: Accept_def Let_def log_def call_Stages_Find_def call_time_Now_def
      call_Stages_Update_def)

text \<open>
  Stage 7 already taken by machine m1; stage 7 free but changed in the store
  since it was read; stage 7 free and unchanged.
\<close>

theorem Accept_optimistic_lock_witness:
  "fst (Accept (example_manager\<lparr>Stages_Find :=
          \<lambda>h i. (Some ((example_stage 7 10 0 None)\<lparr>stage_Machine := ''m1''\<rparr>), None)\<rparr>)
        7 ''m2'' start) = Return (Some ErrOptimisticLock) \<and>
   fst (Accept (example_manager\<lparr>Stages_Find := \<lambda>h i. (Some (example_stage 7 10 0 None), None),
          Stages_Update := \<lambda>h s. Some ErrOptimisticLock\<rparr>)
        7 ''m1'' start) = Return (Some ErrOptimisticLock) \<and>
   calls (snd (Accept (example_manager\<lparr>Stages_Find := \<lambda>h i. (Some (example_stage 7 10 0 None), None)\<rparr>)
        7 ''m1'' start)) =
     [StagesFind 7 (Some (example_stage 7 10 0 None)) None, TimeNow 1001,
      StagesUpdate ((example_stage 7 10 0 None)\<lparr>stage_Machine := ''m1'',
        stage_Status := StatusPending, stage_Updated := 1001\<rparr>) None]"
  using Accept_optimistic_lock [of "example_manager\<lparr>Stages_Find :=
          \<lambda>h i. (Some ((example_stage 7 10 0 None)\<lparr>stage_Machine := ''m1''\<rparr>), None)\<rparr>"
        start 7 "(example_stage 7 10 0 None)\<lparr>stage_Machine := ''m1''\<rparr>" "''m2''"]
    Accept_optimistic_lock [of "example_manager\<lparr>Stages_Find :=
          \<lambda>h i. (Some (example_stage 7 10 0 None), None),
          Stages_Update := \<lambda>h s. Some ErrOptimisticLock\<rparr>"
        start 7 "example_stage 7 10 0 None" "''m1''"]
    Accept_optimistic_lock [of "example_manager\<lparr>Stages_Find :=
          \<lambda>h i. (Some (example_stage 7 10 0 None), None)\<rparr>"
        start 7 "example_stage 7 10 0 None" "''m1''"]
  by (simp add: example_manager_def example_stage_def start_def Let_def)

subsection \<open>After\<close>

text \<open>
  Claim C8, as the spec states it: when the updater succeeds and the teardown
  of the log stream fails, \<^verbatim>\<open>After\<close> returns an error holding the teardown
  failure. Here the updater succeeds, \<^verbatim>\<open>Logz.Delete\<close> fails, and \<^verbatim>\<open>After\<close>
  returns nil.
\<close>

theorem After_teardown_counterexample:
  "updater_do (example_manager\<lparr>Logz_Delete := \<lambda>h i. Some (Err ''stream: not found'')\<rparr>) []
      (example_step 3 StatusPassing 1000) = None \<and>
   Logz_Delete (example_manager\<lparr>Logz_Delete := \<lambda>h i. Some (Err ''stream: not found'')\<rparr>)
      [UpdaterDo (example_step 3 StatusPassing 1000) None] 3 = Some (Err ''stream: not found'') \<and>
   fst (After (example_manager\<lparr>Logz_Delete := \<lambda>h i. Some (Err ''stream: not found'')\<rparr>)
      (example_step 3 StatusPassing 1000) start) = None"
  by (simp add: After_def Let_def log_def call_updater_do_def call_Logz_Delete_def
      example_manager_def example_step_def start_def)

text \<open>
  Claim C8, amended. \<^verbatim>\<open>After\<close> attempts both sub-steps, the updater and then
  the teardown of the step's log stream, also when the updater fails. The
  error it returns is the multi-error of the updater's failure alone, nil when
  the updater succeeds; a failure of the teardown is logged as a warning and
  not returned.
\<close>

theorem After_returns_updater_error:
  "(let r1 = updater_do m (calls st) step;
        r2 = Logz_Delete m (calls st @ [UpdaterDo step r1]) (step_ID step)
    in fst (After m step st) = (case r1 of None \<Rightarrow> None | Some e \<Rightarrow> Some (multierror_Append None e)) \<and>
       calls (snd (After m step st)) = calls st @ [UpdaterDo step r1, LogzDelete (step_ID step) r2] \<and>
       (\<forall>e. r2 = Some e \<longrightarrow>
          last (logs (snd (After m step st))) = (Warn, ''manager: cannot teardown log stream'', Some e)))"
  by (simp add: After_def Let_def log_def call_updater_do_def call_Logz_Delete_def
      split: option.splits)

text \<open>Both sub-steps fail: both are attempted, the updater's error alone is returned.\<close>

theorem After_returns_updater_error_witness:
  "fst (After (example_manager\<lparr>updater_do := \<lambda>h s. Some (Err ''sql: database is locked''),
          Logz_Delete := \<lambda>h i. Some (Err ''stream: not found'')\<rparr>)
        (example_step 3 StatusPassing 1000) start) = Some (MultiError [Err ''sql: database is locked'']) \<and>
   calls (snd (After (example_manager\<lparr>updater_do := \<lambda>h s. Some (Err ''sql: database is locked''),
          Logz_Delete := \<lambda>h i. Some (Err ''stream: not found'')\<rparr>)
        (example_step 3 StatusPassing 1000) start)) =
     [UpdaterDo (example_step 3 StatusPassing 1000) (Some (Err ''sql: database is locked'')),
      LogzDelete 3 (Some (Err ''stream: not found''))] \<and>
   last (logs (snd (After (example_manager\<lparr>updater_do := \<lambda>h s. Some (Err ''sql: database is locked''),
          Logz_Delete := \<lambda>h i. Some (Err ''stream: not found'')\<rparr>)
        (example_step 3 StatusPassing 1000) start))) =
     (Warn, ''manager: cannot teardown log stream'', Some (Err ''stream: not found''))"
  using After_returns_updater_error [of
      "example_manager\<lparr>updater_do := \<lambda>h s. Some (Err ''sql: database is locked''),
          Logz_Delete := \<lambda>h i. Some (Err ''stream: not found'')\<rparr>"
      start "example_step 3 StatusPassing 1000"]
  by (simp add: example_manager_def example_step_def start_def Let_def multierror_Append_def)

subsection \<open>Watch\<close>

text \<open>
  Claim C4 says that \<^verbatim>\<open>Watch\<close> on a stage that is already complete returns
  \<open>(true, nil)\<close> when no cancellation was signalled. The code does not: no
  cancellation is signalled, the store finds stage 7 with status passing, and
  \<^verbatim>\<open>Watch\<close> returns \<open>(false, nil)\<close>.
\<close>

theorem Watch_completed_stage_not_reported:
  "stage_IsDone ((example_stage 7 10 0 None)\<lparr>stage_Status := StatusPassing\<rparr>) \<and>
   fst (Watch (example_manager\<lparr>Stages_Find :=
          \<lambda>h i. (Some ((example_stage 7 10 0 None)\<lparr>stage_Status := StatusPassing\<rparr>), None)\<rparr>)
        7 start) = Return (False, None)"
  by (simp add: Watch_def call_Scheduler_Cancelled_def call_Stages_Find_def log_def Let_def
      example_manager_def example_stage_def start_def stage_IsDone_def status_IsDone_def)

subsection \<open>Cancel\<close>

text \<open>
  Claim C7. For a build whose status is neither pending nor running,
  \<^verbatim>\<open>Cancel\<close> returns the error "cannot cancel completed build" and does nothing
  else: the build is as it was, and no collaborator is called, so nothing is
  written, no cancellation is signalled, no status and no webhook is sent.
\<close>

theorem Cancel_completed:
  "build_Status build \<noteq> StatusPending \<Longrightarrow> build_Status build \<noteq> StatusRunning \<Longrightarrow>
   Cancel m build repo user st = (Some (Err ''cannot cancel completed build''), build, st)"
  by (simp add: Cancel_def)

theorem Cancel_completed_witness:
  "Cancel example_manager (example_build_of 10 StatusPassing 900) example_repo (Some example_user) start
     = (Some (Err ''cannot cancel completed build''), example_build_of 10 StatusPassing 900, start)"
  using Cancel_completed [of "example_build_of 10 StatusPassing 900" example_manager example_repo
      "Some example_user" start]
  by (simp add: example_build_of_def)

end
